theory Spec2Isabelle
  imports
    Main
    "HOL-Library.Char_ord"
    "HOL-Library.List_Lexorder"
    "HOL-Library.Sublist"
    "HOL-Library.Multiset"
begin

section \<open>Strings\<close>

text \<open>
  A Python \<open>str\<close> is a sequence of code points. The strings that the records and the
  files hold are of type \<^typ>\<open>string\<close>: lists of 8-bit characters, read as the code
  points U+0000 to U+00FF. The validation of a phone number is modelled on every
  \<open>str\<close> as well, as a list of code points. Strings are compared as Python compares
  them: lexicographically by code point (\<open>Char_ord\<close> and \<open>List_Lexorder\<close>).
\<close>

definition code_point :: "char \<Rightarrow> nat" where
  "code_point c = of_char c"

text \<open>\<open>str.lower()\<close>: below U+0100 the cased letters are A-Z and U+00C0 to U+00DE
  without the multiplication sign U+00D7; each maps to the code point 32 above.\<close>

definition lower_char :: "char \<Rightarrow> char" where
  "lower_char c =
     (let n = code_point c
      in if (65 \<le> n \<and> n \<le> 90) \<or> (192 \<le> n \<and> n \<le> 222 \<and> n \<noteq> 215)
         then char_of (n + 32) else c)"

definition lower :: "string \<Rightarrow> string" where
  "lower s = map lower_char s"

text \<open>\<open>str.isspace()\<close> for one character: below U+0100 the whitespace is
  U+0009 to U+000D, U+001C to U+0020, U+0085 and U+00A0.\<close>

definition is_space :: "char \<Rightarrow> bool" where
  "is_space c =
     (let n = code_point c
      in (9 \<le> n \<and> n \<le> 13) \<or> (28 \<le> n \<and> n \<le> 32) \<or> n = 133 \<or> n = 160)"

text \<open>\<open>str.strip()\<close>: drop the whitespace at both ends.\<close>

definition strip :: "string \<Rightarrow> string" where
  "strip s = rev (dropWhile is_space (rev (dropWhile is_space s)))"

text \<open>
  The regular-expression class \<open>\d\<close>. In a pattern that is a \<open>str\<close>, compiled without
  \<open>re.ASCII\<close>, it matches every character of the Unicode category Nd (decimal digit):
  the digits 0 to 9 and the decimal digits of the other scripts. The table is the one of
  the standard library's \<open>unicodedata\<close> (Unicode 14.0.0), as ranges of code points; a
  code point is a natural number.
\<close>

definition decimal_ranges :: "(nat \<times> nat) list" where
  "decimal_ranges =
     [(48, 57), (1632, 1641), (1776, 1785), (1984, 1993), (2406, 2415), (2534, 2543),
      (2662, 2671), (2790, 2799), (2918, 2927), (3046, 3055), (3174, 3183), (3302, 3311),
      (3430, 3439), (3558, 3567), (3664, 3673), (3792, 3801), (3872, 3881), (4160, 4169),
      (4240, 4249), (6112, 6121), (6160, 6169), (6470, 6479), (6608, 6617), (6784, 6793),
      (6800, 6809), (6992, 7001), (7088, 7097), (7232, 7241), (7248, 7257), (42528, 42537),
      (43216, 43225), (43264, 43273), (43472, 43481), (43504, 43513), (43600, 43609),
      (44016, 44025), (65296, 65305), (66720, 66729), (68912, 68921), (69734, 69743),
      (69872, 69881), (69942, 69951), (70096, 70105), (70384, 70393), (70736, 70745),
      (70864, 70873), (71248, 71257), (71360, 71369), (71472, 71481), (71904, 71913),
      (72016, 72025), (72784, 72793), (73040, 73049), (73120, 73129), (92768, 92777),
      (92864, 92873), (93008, 93017), (120782, 120831), (123200, 123209), (123632, 123641),
      (125264, 125273), (130032, 130041)]"

definition unicode_decimal :: "nat \<Rightarrow> bool" where
  "unicode_decimal n = list_ex (\<lambda>(lo, hi). lo \<le> n \<and> n \<le> hi) decimal_ranges"

text \<open>\<open>\d\<close> on a character of the 8-bit strings: below U+0100 the class is 0 to 9.\<close>

definition is_digit :: "char \<Rightarrow> bool" where
  "is_digit c = unicode_decimal (code_point c)"

section \<open>The regular expression of the phone number\<close>

text \<open>
  \<open>validate_phone_number\<close> matches the whole string against
  \<^verbatim>\<open>\(\d{3}\) \d{3}-\d{4}\<close> with \<open>re.fullmatch\<close>. The pattern is a sequence of
  items, each an atom (an escaped or plain literal, or \<open>\d\<close>) with a repetition count
  (\<open>{n}\<close>, or 1 when there is none). The matcher works on the code points of the
  string, so on every \<open>str\<close>, and takes the class that \<open>\d\<close> denotes as an argument.
\<close>

datatype atom = Lit nat | Digit

fun atom_matches :: "(nat \<Rightarrow> bool) \<Rightarrow> atom \<Rightarrow> nat \<Rightarrow> bool" where
  "atom_matches digit (Lit l) c = (c = l)"
| "atom_matches digit Digit c = digit c"

type_synonym pattern = "(atom \<times> nat) list"

definition expand :: "pattern \<Rightarrow> atom list" where
  "expand p = concat (map (\<lambda>(a, n). replicate n a) p)"

fun match_atoms :: "(nat \<Rightarrow> bool) \<Rightarrow> atom list \<Rightarrow> nat list \<Rightarrow> bool" where
  "match_atoms digit [] s = (s = [])"
| "match_atoms digit (a # as) [] = False"
| "match_atoms digit (a # as) (c # cs) = (atom_matches digit a c \<and> match_atoms digit as cs)"

definition fullmatch :: "(nat \<Rightarrow> bool) \<Rightarrow> pattern \<Rightarrow> nat list \<Rightarrow> bool" where
  "fullmatch digit p s = match_atoms digit (expand p) s"

text \<open>The pattern: the code points 40, 41, 32 and 45 are the two parentheses, the space
  and the hyphen.\<close>

definition phone_pattern :: pattern where
  "phone_pattern =
     [(Lit 40, 1), (Digit, 3), (Lit 41, 1), (Lit 32, 1), (Digit, 3), (Lit 45, 1), (Digit, 4)]"

text \<open>\<open>validate_phone_number\<close> on any \<open>str\<close>, given as its code points.\<close>

definition validate_phone_number_str :: "nat list \<Rightarrow> bool" where
  "validate_phone_number_str phone_number = fullmatch unicode_decimal phone_pattern phone_number"

text \<open>\<open>validate_phone_number\<close> on an 8-bit string, as the records of the store hold
  them: the same method, at the code points of the string.\<close>

definition validate_phone_number :: "string \<Rightarrow> bool" where
  "validate_phone_number phone_number =
     validate_phone_number_str (map code_point phone_number)"

section \<open>Dates and the clock\<close>

text \<open>
  A \<open>datetime.date\<close> is a year, a month and a day, compared lexicographically; a
  \<open>datetime.datetime\<close> is a date with a time of day (in microseconds).
\<close>

record date =
  year :: nat
  month :: nat
  day :: nat

record datetime =
  date_of :: date
  time_of_day :: nat

definition date_le :: "date \<Rightarrow> date \<Rightarrow> bool" where
  "date_le a b =
     (year a < year b \<or>
      (year a = year b \<and> (month a < month b \<or> (month a = month b \<and> day a \<le> day b))))"

datatype error = ValueError | StopIteration | CsvError

text \<open>
  \<open>datetime.strptime(s, "%Y-%m-%d").date()\<close> of the standard library (CPython's
  \<open>_strptime\<close>): the directives are the regular expressions
  \<^verbatim>\<open>\d\d\d\d\<close> for \<open>%Y\<close>, \<^verbatim>\<open>1[0-2]|0[1-9]|[1-9]\<close> for \<open>%m\<close> and
  \<^verbatim>\<open>3[0-1]|[1-2]\d|0[1-9]|[1-9]| [1-9]\<close> for \<open>%d\<close>, the first alternative that
  matches wins, text left over after the match and a date that does not exist
  raise \<open>ValueError\<close>.
\<close>

definition digit_value :: "char \<Rightarrow> nat" where
  "digit_value c = code_point c - 48"

definition digit_in :: "nat \<Rightarrow> nat \<Rightarrow> char \<Rightarrow> bool" where
  "digit_in lo hi c = (is_digit c \<and> lo \<le> digit_value c \<and> digit_value c \<le> hi)"

fun parse_year :: "string \<Rightarrow> (nat \<times> string) option" where
  "parse_year (a # b # c # d # rest) =
     (if is_digit a \<and> is_digit b \<and> is_digit c \<and> is_digit d
      then Some (1000 * digit_value a + 100 * digit_value b + 10 * digit_value c
                 + digit_value d, rest)
      else None)"
| "parse_year _ = None"

fun parse_month :: "string \<Rightarrow> (nat \<times> string) option" where
  "parse_month (a # b # rest) =
     (if a = CHR ''1'' \<and> digit_in 0 2 b then Some (10 + digit_value b, rest)
      else if a = CHR ''0'' \<and> digit_in 1 9 b then Some (digit_value b, rest)
      else if digit_in 1 9 a then Some (digit_value a, b # rest)
      else None)"
| "parse_month [a] = (if digit_in 1 9 a then Some (digit_value a, []) else None)"
| "parse_month [] = None"

fun parse_day :: "string \<Rightarrow> (nat \<times> string) option" where
  "parse_day (a # b # rest) =
     (if a = CHR ''3'' \<and> digit_in 0 1 b then Some (30 + digit_value b, rest)
      else if digit_in 1 2 a \<and> is_digit b then Some (10 * digit_value a + digit_value b, rest)
      else if a = CHR ''0'' \<and> digit_in 1 9 b then Some (digit_value b, rest)
      else if digit_in 1 9 a then Some (digit_value a, b # rest)
      else if a = CHR '' '' \<and> digit_in 1 9 b then Some (digit_value b, rest)
      else None)"
| "parse_day [a] = (if digit_in 1 9 a then Some (digit_value a, []) else None)"
| "parse_day [] = None"

fun expect_dash :: "string \<Rightarrow> string option" where
  "expect_dash (c # rest) = (if c = CHR ''-'' then Some rest else None)"
| "expect_dash [] = None"

definition is_leap :: "nat \<Rightarrow> bool" where
  "is_leap y = (y mod 4 = 0 \<and> (y mod 100 \<noteq> 0 \<or> y mod 400 = 0))"

definition days_in_month :: "nat \<Rightarrow> nat \<Rightarrow> nat" where
  "days_in_month y m =
     (if m = 2 then (if is_leap y then 29 else 28)
      else if m = 4 \<or> m = 6 \<or> m = 9 \<or> m = 11 then 30 else 31)"

definition strptime_date :: "string \<Rightarrow> error + date" where
  "strptime_date s =
     (case parse_year s of
        None \<Rightarrow> Inl ValueError
      | Some (y, s1) \<Rightarrow>
     (case expect_dash s1 of
        None \<Rightarrow> Inl ValueError
      | Some s2 \<Rightarrow>
     (case parse_month s2 of
        None \<Rightarrow> Inl ValueError
      | Some (m, s3) \<Rightarrow>
     (case expect_dash s3 of
        None \<Rightarrow> Inl ValueError
      | Some s4 \<Rightarrow>
     (case parse_day s4 of
        None \<Rightarrow> Inl ValueError
      | Some (d, s5) \<Rightarrow>
          if s5 \<noteq> [] then Inl ValueError
          else if y < 1 \<or> days_in_month y m < d then Inl ValueError
          else Inr \<lparr>year = y, month = m, day = d\<rparr>)))))"

section \<open>Contact\<close>

text \<open>
  The class \<open>Contact\<close> of \<open>contact.py\<close>. The optional \<open>email\<close> and \<open>address\<close>
  are \<open>None\<close> or a string. \<open>__init__\<close> reads \<open>datetime.now()\<close> twice; the two
  readings are arguments of the constructor.
\<close>

record contact =
  first_name :: string
  last_name :: string
  phone_number :: string
  email :: "string option"
  address :: "string option"
  created_at :: datetime
  updated_at :: datetime

definition Contact ::
  "string \<Rightarrow> string \<Rightarrow> string \<Rightarrow> string option \<Rightarrow> string option \<Rightarrow>
   datetime \<Rightarrow> datetime \<Rightarrow> contact" where
  "Contact fn ln pn em ad now1 now2 =
     \<lparr>first_name = fn, last_name = ln, phone_number = pn, email = em, address = ad,
      created_at = now1, updated_at = now2\<rparr>"

text \<open>Python's truth value of an optional string: \<open>None\<close> and \<open>''\<close> are false.\<close>

definition truthy :: "string option \<Rightarrow> bool" where
  "truthy a = (case a of None \<Rightarrow> False | Some s \<Rightarrow> s \<noteq> [])"

text \<open>\<open>Contact.update_contact\<close>; \<open>now\<close> is the reading of \<open>datetime.now()\<close>.\<close>

definition update_contact ::
  "string option \<Rightarrow> string option \<Rightarrow> string option \<Rightarrow> string option \<Rightarrow> string option \<Rightarrow>
   datetime \<Rightarrow> contact \<Rightarrow> contact" where
  "update_contact fn ln pn em ad now c =
     (let c1 = (if truthy fn then c\<lparr>first_name := the fn\<rparr> else c);
          c2 = (if truthy ln then c1\<lparr>last_name := the ln\<rparr> else c1);
          c3 = (if truthy pn then c2\<lparr>phone_number := the pn\<rparr> else c2);
          c4 = (if truthy em then c3\<lparr>email := em\<rparr> else c3);
          c5 = (if truthy ad then c4\<lparr>address := ad\<rparr> else c4)
      in c5\<lparr>updated_at := now\<rparr>)"

text \<open>\<open>Contact.__str__\<close>.\<close>

definition or_na :: "string option \<Rightarrow> string" where
  "or_na a = (if truthy a then the a else ''N/A'')"

definition str_contact :: "contact \<Rightarrow> string" where
  "str_contact c =
     first_name c @ '' '' @ last_name c @ '': '' @ phone_number c @
     '' | Email: '' @ or_na (email c) @ '' | Address: '' @ or_na (address c)"

section \<open>PhoneBook\<close>

text \<open>
  The class \<open>PhoneBook\<close> of \<open>phonebook.py\<close>: the list of contacts and the path of
  the persistence file. A CSV file is the list of its rows, a row being a list of
  strings: the rows that \<open>csv.writer\<close> writes to a file opened with \<open>newline=''\<close>, which
  are the rows that \<open>csv.reader\<close> yields from a file opened with \<open>newline=''\<close>, as
  \<open>batch_import\<close> and \<open>batch_delete\<close> open theirs. The file system maps a path to the
  rows of the file there, or to \<open>None\<close> where \<open>open\<close> raises \<open>FileNotFoundError\<close>. The
  calls of \<open>logging\<close> write to the log file only and are left out; what a method prints
  is the list \<open>printed\<close> of its outcome, one \<open>message\<close> for each \<open>print\<close> (the decoration
  of the text is left out).
\<close>

record phonebook =
  contacts :: "contact list"
  filename :: string

type_synonym csv_rows = "string list list"
type_synonym files = "string \<rightharpoonup> csv_rows"

datatype message =
    InvalidPhoneFormat
  | ContactDeleted string string
  | NotFoundContacts "string list"
  | BatchDeleteCompleted string
  | FileNotFound string
  | InvalidContactsHeader
  | Line string
  | BatchImportCompleted string
  | FoundInRange nat
  | NoContactsBetween date date
  | InvalidDateFormat
  | NoContactsFile string

record 'r outcome =
  returned :: 'r
  store :: phonebook
  printed :: "message list"

definition PhoneBook :: "string \<Rightarrow> phonebook" where
  "PhoneBook path = \<lparr>contacts = [], filename = path\<rparr>"

definition sort_contacts :: "string \<Rightarrow> phonebook \<Rightarrow> phonebook" where
  "sort_contacts key pb =
     (if key = ''first_name''
      then pb\<lparr>contacts := sort_key (\<lambda>contact. lower (first_name contact)) (contacts pb)\<rparr>
      else if key = ''last_name''
      then pb\<lparr>contacts := sort_key (\<lambda>contact. lower (last_name contact)) (contacts pb)\<rparr>
      else pb)"

definition add_contact :: "contact \<Rightarrow> phonebook \<Rightarrow> unit outcome" where
  "add_contact contact pb =
     (if \<not> validate_phone_number (phone_number contact)
      then \<lparr>returned = (), store = pb, printed = [InvalidPhoneFormat]\<rparr>
      else \<lparr>returned = (),
            store = sort_contacts ''last_name'' (pb\<lparr>contacts := contacts pb @ [contact]\<rparr>),
            printed = []\<rparr>)"

definition remove_contact_by_name :: "string \<Rightarrow> string \<Rightarrow> phonebook \<Rightarrow> unit outcome" where
  "remove_contact_by_name first_name0 last_name0 pb =
     (let original_count = length (contacts pb);
          fn = strip first_name0;
          ln = strip last_name0;
          kept = filter (\<lambda>contact. lower (strip (first_name contact)) \<noteq> lower fn
                                   \<or> lower (strip (last_name contact)) \<noteq> lower ln)
                        (contacts pb)
      in \<lparr>returned = (), store = pb\<lparr>contacts := kept\<rparr>,
          printed = (if length kept < original_count then [ContactDeleted fn ln] else [])\<rparr>)"

text \<open>The loop of \<open>batch_delete\<close> over the rows after the header: the store, the
  list \<open>not_found_contacts\<close> and what has been printed so far.\<close>

fun delete_rows ::
  "csv_rows \<Rightarrow> phonebook \<Rightarrow> string list \<Rightarrow> message list \<Rightarrow>
   phonebook \<times> string list \<times> message list" where
  "delete_rows [] pb not_found out = (pb, not_found, out)"
| "delete_rows (row # rows) pb not_found out =
     (if 2 \<le> length row then
        (let fn = strip (row ! 0);
             ln = strip (row ! 1);
             original_count = length (contacts pb);
             r = remove_contact_by_name fn ln pb;
             not_found' = (if length (contacts (store r)) = original_count
                           then not_found @ [fn @ '' '' @ ln] else not_found)
         in delete_rows rows (store r) not_found' (out @ printed r))
      else delete_rows rows pb not_found out)"

text \<open>\<open>batch_delete\<close>: \<open>next(reader)\<close> raises \<open>StopIteration\<close> when the file has no
  row, and the method catches \<open>FileNotFoundError\<close> only.\<close>

definition batch_delete :: "string \<Rightarrow> files \<Rightarrow> phonebook \<Rightarrow> error + unit outcome" where
  "batch_delete csv_file fs pb =
     (case fs csv_file of
        None \<Rightarrow> Inr \<lparr>returned = (), store = pb, printed = [FileNotFound csv_file]\<rparr>
      | Some [] \<Rightarrow> Inl StopIteration
      | Some (header # rows) \<Rightarrow>
          (case delete_rows rows pb [] [] of
             (pb', not_found, out) \<Rightarrow>
               Inr \<lparr>returned = (), store = pb',
                    printed = out @ [if not_found \<noteq> [] then NotFoundContacts not_found
                                     else BatchDeleteCompleted csv_file]\<rparr>))"

text \<open>The loop of \<open>batch_import\<close>. \<open>clock i\<close> is the \<open>i\<close>-th reading of
  \<open>datetime.now()\<close> during the call and \<open>n\<close> the number of readings made so far: a
  row of three fields or more constructs a \<open>Contact\<close>, which reads the clock twice.\<close>

fun import_rows ::
  "(nat \<Rightarrow> datetime) \<Rightarrow> nat \<Rightarrow> csv_rows \<Rightarrow> phonebook \<Rightarrow> string list \<Rightarrow> message list \<Rightarrow>
   phonebook \<times> string list \<times> message list" where
  "import_rows clock n [] pb invalid out = (pb, invalid, out)"
| "import_rows clock n (row # rows) pb invalid out =
     (if 3 \<le> length row then
        (let fn = row ! 0; ln = row ! 1; pn = row ! 2;
             em = (if 3 < length row then Some (row ! 3) else None);
             ad = (if 4 < length row then Some (row ! 4) else None);
             contact = Contact fn ln pn em ad (clock n) (clock (n + 1))
         in if \<not> validate_phone_number pn
            then import_rows clock (n + 2) rows pb
                   (invalid @ [fn @ '' '' @ ln @ '': '' @ pn]) out
            else (let r = add_contact contact pb
                  in import_rows clock (n + 2) rows (store r) invalid (out @ printed r)))
      else import_rows clock n rows pb invalid out)"

definition batch_import ::
  "string \<Rightarrow> files \<Rightarrow> (nat \<Rightarrow> datetime) \<Rightarrow> phonebook \<Rightarrow> unit outcome" where
  "batch_import csv_file fs clock pb =
     (case fs csv_file of
        None \<Rightarrow> \<lparr>returned = (), store = pb, printed = [FileNotFound csv_file]\<rparr>
      | Some rows \<Rightarrow>
          (case import_rows clock 0 rows pb [] [] of
             (pb', invalid, out) \<Rightarrow>
               \<lparr>returned = (), store = pb',
                printed = out @ (if invalid \<noteq> [] then InvalidContactsHeader # map Line invalid
                                 else [BatchImportCompleted csv_file])\<rparr>))"

definition search_contact :: "string \<Rightarrow> phonebook \<Rightarrow> contact list outcome" where
  "search_contact query0 pb =
     (let query = lower (strip query0);
          result = filter (\<lambda>contact. sublist query (lower (first_name contact))
                                     \<or> sublist query (lower (last_name contact))
                                     \<or> sublist query (phone_number contact))
                          (contacts pb)
      in \<lparr>returned = result, store = pb, printed = []\<rparr>)"

text \<open>\<open>filter_by_date\<close>: the body of the \<open>try\<close> raises where \<open>strptime\<close> does,
  and the handler catches \<open>ValueError\<close> only.\<close>

definition invalid_date_format :: "phonebook \<Rightarrow> error \<Rightarrow> error + contact list outcome" where
  "invalid_date_format pb e =
     (if e = ValueError
      then Inr \<lparr>returned = [], store = pb, printed = [InvalidDateFormat]\<rparr>
      else Inl e)"

definition filter_by_date ::
  "string \<Rightarrow> string \<Rightarrow> phonebook \<Rightarrow> error + contact list outcome" where
  "filter_by_date start_date0 end_date0 pb =
     (case strptime_date start_date0 of
        Inl e \<Rightarrow> invalid_date_format pb e
      | Inr start_date \<Rightarrow>
     (case strptime_date end_date0 of
        Inl e \<Rightarrow> invalid_date_format pb e
      | Inr end_date \<Rightarrow>
          (let result = filter (\<lambda>contact. date_le start_date (date_of (created_at contact))
                                         \<and> date_le (date_of (created_at contact)) end_date)
                               (contacts pb)
           in Inr \<lparr>returned = result, store = pb,
                   printed = (if result \<noteq> []
                              then FoundInRange (length result) # map (Line \<circ> str_contact) result
                              else [NoContactsBetween start_date end_date])\<rparr>)))"

text \<open>\<open>csv.writer\<close> writes \<open>None\<close> as the empty string.\<close>

definition csv_cell :: "string option \<Rightarrow> string" where
  "csv_cell a = (case a of None \<Rightarrow> [] | Some s \<Rightarrow> s)"

definition csv_row :: "contact \<Rightarrow> string list" where
  "csv_row contact =
     [first_name contact, last_name contact, phone_number contact,
      csv_cell (email contact), csv_cell (address contact)]"

definition save_to_file :: "phonebook \<Rightarrow> files \<Rightarrow> files" where
  "save_to_file pb fs = fs(filename pb \<mapsto> map csv_row (contacts pb))"

text \<open>
  \<open>load_from_file\<close> opens the persistence file with \<open>open(self.filename, 'r')\<close>, without
  \<open>newline=''\<close>: the text layer translates every CR LF and every other CR to LF before
  \<open>csv.reader\<close> sees the text, also inside a quoted field. The rows it yields are the rows
  of the file with every field so translated.
\<close>

definition carriage_return :: char where
  "carriage_return = CHR 0x0D"

definition line_feed :: char where
  "line_feed = CHR 0x0A"

fun universal_newlines :: "string \<Rightarrow> string" where
  "universal_newlines (c # d # s) =
     (if c = carriage_return \<and> d = line_feed then line_feed # universal_newlines s
      else if c = carriage_return then line_feed # universal_newlines (d # s)
      else c # universal_newlines (d # s))"
| "universal_newlines [c] = (if c = carriage_return then [line_feed] else [c])"
| "universal_newlines [] = []"

text \<open>\<open>csv.reader\<close> raises \<open>csv.Error\<close> at a field of more than
  \<open>csv.field_size_limit()\<close> characters, 131072 unless it has been changed.\<close>

definition field_size_limit :: nat where
  "field_size_limit = 131072"

definition read_text_row :: "string list \<Rightarrow> error + string list" where
  "read_text_row written =
     (let row = map universal_newlines written
      in if list_ex (\<lambda>field. field_size_limit < length field) row then Inl CsvError
         else Inr row)"

text \<open>The loop of \<open>load_from_file\<close>. The reader parses a row when the loop asks for it,
  so an error of the reader leaves the store with the rows added before it: a raise is
  the exception with the store and the output at that moment.\<close>

type_synonym raised = "error \<times> phonebook \<times> message list"

fun load_rows ::
  "(nat \<Rightarrow> datetime) \<Rightarrow> nat \<Rightarrow> csv_rows \<Rightarrow> phonebook \<Rightarrow> message list \<Rightarrow>
   raised + phonebook \<times> message list" where
  "load_rows clock n [] pb out = Inr (pb, out)"
| "load_rows clock n (written # rows) pb out =
     (case read_text_row written of
        Inl e \<Rightarrow> Inl (e, pb, out)
      | Inr row \<Rightarrow>
          if 3 \<le> length row then
            (let contact = Contact (row ! 0) (row ! 1) (row ! 2)
                             (if 3 < length row then Some (row ! 3) else None)
                             (if 4 < length row then Some (row ! 4) else None)
                             (clock n) (clock (n + 1));
                 r = add_contact contact pb
             in load_rows clock (n + 2) rows (store r) (out @ printed r))
          else load_rows clock n rows pb out)"

text \<open>\<open>load_from_file\<close> catches \<open>FileNotFoundError\<close> only.\<close>

definition load_from_file ::
  "files \<Rightarrow> (nat \<Rightarrow> datetime) \<Rightarrow> phonebook \<Rightarrow> raised + unit outcome" where
  "load_from_file fs clock pb =
     (case fs (filename pb) of
        None \<Rightarrow> Inr \<lparr>returned = (), store = pb, printed = [NoContactsFile (filename pb)]\<rparr>
      | Some rows \<Rightarrow>
          (case load_rows clock 0 rows pb [] of
             Inl r \<Rightarrow> Inl r
           | Inr (pb', out) \<Rightarrow> Inr \<lparr>returned = (), store = pb', printed = out\<rparr>))"

section \<open>Notions of the specification and example data\<close>

text \<open>A sequence of \<open>add_contact\<close> calls, each on the store the one before left.\<close>

fun add_contacts :: "contact list \<Rightarrow> phonebook \<Rightarrow> phonebook" where
  "add_contacts [] pb = pb"
| "add_contacts (c # cs) pb = add_contacts cs (store (add_contact c pb))"

definition by_last_name :: "phonebook \<Rightarrow> bool" where
  "by_last_name pb = sorted (map (\<lambda>c. lower (last_name c)) (contacts pb))"

text \<open>The specification's match of a record with a pair of names: equal first names and
  equal last names, compared without case after trimming both sides.\<close>

definition names_match :: "string \<Rightarrow> string \<Rightarrow> contact \<Rightarrow> bool" where
  "names_match fn ln c =
     (lower (strip (first_name c)) = lower (strip fn) \<and>
      lower (strip (last_name c)) = lower (strip ln))"

text \<open>The search as the specification words it: the query as given is looked for,
  without case in the two names and as it is in the phone number.\<close>

definition claimed_search :: "string \<Rightarrow> phonebook \<Rightarrow> contact list" where
  "claimed_search query pb =
     filter (\<lambda>c. sublist (lower query) (lower (first_name c))
               \<or> sublist (lower query) (lower (last_name c))
               \<or> sublist query (phone_number c))
            (contacts pb)"

definition jan15 :: datetime where
  "jan15 = \<lparr>date_of = \<lparr>year = 2024, month = 1, day = 15\<rparr>, time_of_day = 0\<rparr>"

definition feb03 :: datetime where
  "feb03 = \<lparr>date_of = \<lparr>year = 2024, month = 2, day = 3\<rparr>, time_of_day = 0\<rparr>"

definition john_doe :: contact where
  "john_doe = Contact ''John'' ''Doe'' ''(555) 123-4567'' None None jan15 jan15"

definition jane_smith :: contact where
  "jane_smith =
     Contact ''Jane'' ''Smith'' ''(555) 999-8888'' (Some ''jane@example.com'') (Some [])
       feb03 feb03"

definition example_book :: phonebook where
  "example_book = \<lparr>contacts = [john_doe, jane_smith], filename = ''contacts.csv''\<rparr>"

definition two_janes :: phonebook where
  "two_janes =
     \<lparr>contacts = [Contact ''Jane'' ''Doe'' ''(555) 000-1111'' None None jan15 jan15,
                  john_doe,
                  Contact '' JANE'' ''doe '' ''(555) 000-2222'' None None feb03 feb03],
      filename = ''contacts.csv''\<rparr>"

text \<open>The contact that \<open>batch_import\<close> constructs from a row of three fields or more.\<close>

definition row_contact :: "(nat \<Rightarrow> datetime) \<Rightarrow> nat \<Rightarrow> string list \<Rightarrow> contact" where
  "row_contact clock n row =
     Contact (row ! 0) (row ! 1) (row ! 2)
       (if 3 < length row then Some (row ! 3) else None)
       (if 4 < length row then Some (row ! 4) else None)
       (clock n) (clock (n + 1))"

definition numbered_clock :: "nat \<Rightarrow> datetime" where
  "numbered_clock i = \<lparr>date_of = \<lparr>year = 2024, month = 3, day = 1\<rparr>, time_of_day = i\<rparr>"

text \<open>The validation as the specification words it, with each digit one of 0 to 9; and
  a phone number written with the Arabic-Indic digits U+0660 to U+0669.\<close>

definition ascii_digit :: "nat \<Rightarrow> bool" where
  "ascii_digit n = (48 \<le> n \<and> n \<le> 57)"

definition claimed_phone :: "nat list \<Rightarrow> bool" where
  "claimed_phone s = fullmatch ascii_digit phone_pattern s"


text \<open>The five fields of a record that the round trip is about, the timestamps left out;
  and the same fields as the persistence file holds them, where \<open>None\<close> has become the
  empty string.\<close>

type_synonym fields = "string \<times> string \<times> string \<times> string option \<times> string option"

definition fields_of :: "contact \<Rightarrow> fields" where
  "fields_of c = (first_name c, last_name c, phone_number c, email c, address c)"

definition persisted :: "contact \<Rightarrow> fields" where
  "persisted c =
     (first_name c, last_name c, phone_number c,
      Some (csv_cell (email c)), Some (csv_cell (address c)))"

definition last_name_key :: "fields \<Rightarrow> string" where
  "last_name_key r = lower (fst (snd r))"

text \<open>\<open>save_to_file\<close>, then \<open>load_from_file\<close> into a fresh store on the same path.\<close>

definition save_then_load ::
  "phonebook \<Rightarrow> files \<Rightarrow> (nat \<Rightarrow> datetime) \<Rightarrow> raised + unit outcome" where
  "save_then_load pb fs clock =
     load_from_file (save_to_file pb fs) clock (PhoneBook (filename pb))"

text \<open>The round trip as the specification words it: every saved record has a loaded
  record with the same five fields.\<close>

definition reproduces :: "phonebook \<Rightarrow> phonebook \<Rightarrow> bool" where
  "reproduces saved loaded =
     list_all (\<lambda>c. fields_of c \<in> set (map fields_of (contacts loaded))) (contacts saved)"

text \<open>A store whose fields the text layer gives back as they were written: no field of
  the file holds a carriage return or is longer than the limit of the reader.\<close>

definition plain_fields :: "phonebook \<Rightarrow> bool" where
  "plain_fields pb =
     list_all (\<lambda>c. list_all (\<lambda>field. carriage_return \<notin> set field
                                      \<and> length field \<le> field_size_limit) (csv_row c))
              (contacts pb)"

text \<open>A store filled by \<open>batch_import\<close> from a file with one row, whose first field is
  quoted and holds a carriage return between \<open>Ann\<close> and \<open>Marie\<close>.\<close>

definition ann_marie :: string where
  "ann_marie = ''Ann'' @ [carriage_return] @ ''Marie''"

definition ann_marie_book :: phonebook where
  "ann_marie_book =
     store (batch_import ''in.csv''
              [''in.csv'' \<mapsto> [[ann_marie, ''Lee'', ''(555) 222-3333'', ''ann@example.com'',
                                ''1 Main St'']]]
              numbered_clock (PhoneBook ''contacts.csv''))"

section \<open>Phone number validation\<close>

lemma match_atoms_Cons:
  "match_atoms digit (a # as) s =
     (\<exists>c cs. s = c # cs \<and> atom_matches digit a c \<and> match_atoms digit as cs)"
  by (cases s) simp_all

lemma expand_phone_pattern:
  "expand phone_pattern =
     [Lit 40, Digit, Digit, Digit, Lit 41, Lit 32,
      Digit, Digit, Digit, Lit 45, Digit, Digit, Digit, Digit]"
proof -
  have r: "replicate 3 x = [x, x, x]" "replicate 4 x = [x, x, x, x]" for x :: atom
    by (simp_all add: numeral_eq_Suc)
  show ?thesis
    by (simp add: expand_def phone_pattern_def r)
qed

lemma match_atoms_phone_shape:
  "match_atoms digit
     [Lit l1, Digit, Digit, Digit, Lit l2, Lit l3, Digit, Digit, Digit, Lit l4,
      Digit, Digit, Digit, Digit] s \<longleftrightarrow>
     (\<exists>a b c d e f g h i j.
        digit a \<and> digit b \<and> digit c \<and> digit d \<and> digit e \<and>
        digit f \<and> digit g \<and> digit h \<and> digit i \<and> digit j \<and>
        s = [l1, a, b, c, l2, l3, d, e, f, l4, g, h, i, j])"
proof
  assume "match_atoms digit
     [Lit l1, Digit, Digit, Digit, Lit l2, Lit l3, Digit, Digit, Digit, Lit l4,
      Digit, Digit, Digit, Digit] s"
  then show "\<exists>a b c d e f g h i j.
        digit a \<and> digit b \<and> digit c \<and> digit d \<and> digit e \<and>
        digit f \<and> digit g \<and> digit h \<and> digit i \<and> digit j \<and>
        s = [l1, a, b, c, l2, l3, d, e, f, l4, g, h, i, j]"
    by (clarsimp simp add: match_atoms_Cons)
next
  assume "\<exists>a b c d e f g h i j.
        digit a \<and> digit b \<and> digit c \<and> digit d \<and> digit e \<and>
        digit f \<and> digit g \<and> digit h \<and> digit i \<and> digit j \<and>
        s = [l1, a, b, c, l2, l3, d, e, f, l4, g, h, i, j]"
  then show "match_atoms digit
     [Lit l1, Digit, Digit, Digit, Lit l2, Lit l3, Digit, Digit, Digit, Lit l4,
      Digit, Digit, Digit, Digit] s"
    by clarsimp
qed

lemma fullmatch_phone_pattern:
  "fullmatch digit phone_pattern s \<longleftrightarrow>
     (\<exists>a b c d e f g h i j.
        digit a \<and> digit b \<and> digit c \<and> digit d \<and> digit e \<and>
        digit f \<and> digit g \<and> digit h \<and> digit i \<and> digit j \<and>
        s = [40, a, b, c, 41, 32, d, e, f, 45, g, h, i, j])"
  unfolding fullmatch_def expand_phone_pattern
  by (rule match_atoms_phone_shape)

lemma unicode_decimal_below_256:
  "n < 256 \<Longrightarrow> unicode_decimal n \<longleftrightarrow> 48 \<le> n \<and> n \<le> 57"
  by (simp add: unicode_decimal_def decimal_ranges_def)

lemma code_point_below_256: "code_point c < 256"
  by (simp add: code_point_def)

lemma is_digit_iff [code]: "is_digit c \<longleftrightarrow> 48 \<le> code_point c \<and> code_point c \<le> 57"
  by (simp add: is_digit_def unicode_decimal_below_256 code_point_below_256)

lemma validate_examples:
  "validate_phone_number ''(555) 222-3333''"
  "validate_phone_number ''(555) 123-4567''"
  "validate_phone_number ''(555) 999-8888''"
  "\<not> validate_phone_number ''5550001111''"
  "\<not> validate_phone_number ''123-456-7890''"
  by (simp_all add: validate_phone_number_def validate_phone_number_str_def fullmatch_def
      expand_phone_pattern code_point_def unicode_decimal_below_256)



text \<open>The validation as the specification words it is the same shape with the digits
  0 to 9.\<close>

lemma claimed_phone_iff:
  "claimed_phone s \<longleftrightarrow>
     (\<exists>a b c d e f g h i j.
        ascii_digit a \<and> ascii_digit b \<and> ascii_digit c \<and> ascii_digit d \<and>
        ascii_digit e \<and> ascii_digit f \<and> ascii_digit g \<and> ascii_digit h \<and>
        ascii_digit i \<and> ascii_digit j \<and>
        s = [40, a, b, c, 41, 32, d, e, f, 45, g, h, i, j])"
  unfolding claimed_phone_def by (rule fullmatch_phone_pattern)

lemma code_point_literals:
  "code_point x = 40 \<longleftrightarrow> x = CHR ''(''" "code_point x = 41 \<longleftrightarrow> x = CHR '')''"
  "code_point x = 32 \<longleftrightarrow> x = CHR '' ''" "code_point x = 45 \<longleftrightarrow> x = CHR ''-''"
proof -
  have e: "(40::nat) = of_char CHR ''(''" "(41::nat) = of_char CHR '')''"
    "(32::nat) = of_char CHR '' ''" "(45::nat) = of_char CHR ''-''"
    by simp_all
  show "code_point x = 40 \<longleftrightarrow> x = CHR ''(''" "code_point x = 41 \<longleftrightarrow> x = CHR '')''"
    "code_point x = 32 \<longleftrightarrow> x = CHR '' ''" "code_point x = 45 \<longleftrightarrow> x = CHR ''-''"
    unfolding code_point_def e by (simp_all only: of_char_eq_iff)
qed

text \<open>On the 8-bit strings that the records of the store hold, the validation is this
  shape with the digits 0 to 9 (\<open>is_digit_iff\<close>).\<close>

lemma validate_phone_number_chars:
  "validate_phone_number s \<longleftrightarrow>
     (\<exists>a b c d e f g h i j.
        is_digit a \<and> is_digit b \<and> is_digit c \<and> is_digit d \<and> is_digit e \<and>
        is_digit f \<and> is_digit g \<and> is_digit h \<and> is_digit i \<and> is_digit j \<and>
        s = [CHR ''('', a, b, c, CHR '')'', CHR '' '', d, e, f, CHR ''-'', g, h, i, j])"
proof
  assume "validate_phone_number s"
  then show "\<exists>a b c d e f g h i j.
        is_digit a \<and> is_digit b \<and> is_digit c \<and> is_digit d \<and> is_digit e \<and>
        is_digit f \<and> is_digit g \<and> is_digit h \<and> is_digit i \<and> is_digit j \<and>
        s = [CHR ''('', a, b, c, CHR '')'', CHR '' '', d, e, f, CHR ''-'', g, h, i, j]"
    unfolding validate_phone_number_def validate_phone_number_str_def fullmatch_phone_pattern
    by (clarsimp simp add: Cons_eq_map_conv code_point_literals is_digit_def)
next
  assume "\<exists>a b c d e f g h i j.
        is_digit a \<and> is_digit b \<and> is_digit c \<and> is_digit d \<and> is_digit e \<and>
        is_digit f \<and> is_digit g \<and> is_digit h \<and> is_digit i \<and> is_digit j \<and>
        s = [CHR ''('', a, b, c, CHR '')'', CHR '' '', d, e, f, CHR ''-'', g, h, i, j]"
  then show "validate_phone_number s"
    unfolding validate_phone_number_def validate_phone_number_str_def fullmatch_def
      expand_phone_pattern
    by (clarsimp simp add: is_digit_def code_point_def)
qed

section \<open>Adding a contact\<close>

text \<open>
  Claim C4. When the phone number of a record fails the validation, \<open>add_contact\<close>
  returns normally, prints the failure and leaves the store as it was: the same records
  in the same order.
\<close>

theorem add_contact_invalid_phone:
  "\<not> validate_phone_number (phone_number c) \<Longrightarrow>
   add_contact c pb = \<lparr>returned = (), store = pb, printed = [InvalidPhoneFormat]\<rparr>"
  by (simp add: add_contact_def)

text \<open>The witness of C4: a record with the phone number \<open>123-456-7890\<close>.\<close>

theorem add_contact_invalid_phone_witness:
  "\<not> validate_phone_number (phone_number (john_doe\<lparr>phone_number := ''123-456-7890''\<rparr>))
   \<and> add_contact (john_doe\<lparr>phone_number := ''123-456-7890''\<rparr>) example_book =
       \<lparr>returned = (), store = example_book, printed = [InvalidPhoneFormat]\<rparr>"
proof -
  have h:
    "\<not> validate_phone_number (phone_number (john_doe\<lparr>phone_number := ''123-456-7890''\<rparr>))"
    by (simp add: validate_examples)
  from h add_contact_invalid_phone [OF h, of example_book] show ?thesis by simp
qed

lemma add_contact_by_last_name:
  "by_last_name pb \<Longrightarrow> by_last_name (store (add_contact c pb))"
  by (simp add: add_contact_def sort_contacts_def by_last_name_def)

lemma sort_key_sort_key_append:
  "sort_key f (sort_key f xs @ ys) = sort_key f (xs @ ys)"
proof (rule properties_for_sort_key)
  show "mset (sort_key f (xs @ ys)) = mset (sort_key f xs @ ys)" by simp
next
  fix k
  have "filter (\<lambda>x. f k = f x) (sort_key f zs) = filter (\<lambda>x. f k = f x) zs" for zs
    using sort_key_stable [of f "f k" zs] by (simp add: eq_commute)
  then show "filter (\<lambda>x. f k = f x) (sort_key f (xs @ ys)) = filter (\<lambda>x. f k = f x) (sort_key f xs @ ys)"
    by simp
next
  show "sorted (map f (sort_key f (xs @ ys)))" by simp
qed

lemma map_insort_key:
  "map g (insort_key (\<lambda>x. k (g x)) x ys) = insort_key k (g x) (map g ys)"
  by (induction ys) simp_all

lemma map_sort_key:
  "map g (sort_key (\<lambda>x. k (g x)) xs) = sort_key k (map g xs)"
  by (induction xs) (simp_all add: map_insort_key)

lemma add_contacts_contents:
  "by_last_name pb \<Longrightarrow>
   contacts (add_contacts cs pb) =
   sort_key (\<lambda>c. lower (last_name c))
     (contacts pb @ filter (\<lambda>c. validate_phone_number (phone_number c)) cs)"
proof (induction cs arbitrary: pb)
  case Nil
  then show ?case
    by (simp add: by_last_name_def sort_key_id_if_sorted)
next
  case (Cons c cs)
  have sorted': "by_last_name (store (add_contact c pb))"
    using Cons.prems by (rule add_contact_by_last_name)
  show ?case
  proof (cases "validate_phone_number (phone_number c)")
    case True
    then have "contacts (store (add_contact c pb)) =
        sort_key (\<lambda>c. lower (last_name c)) (contacts pb @ [c])"
      by (simp add: add_contact_def sort_contacts_def)
    with True show ?thesis
      using Cons.IH [OF sorted'] by (simp add: sort_key_sort_key_append)
  next
    case False
    then have "store (add_contact c pb) = pb"
      by (simp add: add_contact_def)
    with False show ?thesis
      using Cons.IH [OF Cons.prems] by simp
  qed
qed

text \<open>
  Claim C5. Starting from the empty store, after any finite sequence of \<open>add_contact\<close>
  calls the store holds exactly the records whose phone number is valid, that is the
  records of the successful calls, as the stable sort by lower-cased last name puts
  them; so the contacts are in nondecreasing order of their lower-cased last names, and
  after a sequence of successful calls the store holds every record that was added.
\<close>

theorem add_contacts_sorted:
  "contacts (add_contacts cs (PhoneBook path)) =
     sort_key (\<lambda>c. lower (last_name c))
       (filter (\<lambda>c. validate_phone_number (phone_number c)) cs)
   \<and> sorted (map (\<lambda>c. lower (last_name c)) (contacts (add_contacts cs (PhoneBook path))))
   \<and> ((\<forall>c\<in>set cs. validate_phone_number (phone_number c)) \<longrightarrow>
        contacts (add_contacts cs (PhoneBook path)) = sort_key (\<lambda>c. lower (last_name c)) cs)"
proof -
  have "by_last_name (PhoneBook path)"
    by (simp add: by_last_name_def PhoneBook_def)
  then have eq: "contacts (add_contacts cs (PhoneBook path)) =
     sort_key (\<lambda>c. lower (last_name c))
       (filter (\<lambda>c. validate_phone_number (phone_number c)) cs)"
    using add_contacts_contents [of "PhoneBook path" cs] by (simp add: PhoneBook_def)
  have "filter (\<lambda>c. validate_phone_number (phone_number c)) cs = cs"
    if "\<forall>c\<in>set cs. validate_phone_number (phone_number c)"
    using that by (simp add: filter_id_conv)
  with eq show ?thesis
    by simp
qed

text \<open>The witness of C5: Jane Smith, a record with an invalid phone number and John Doe
  are added in this order; the store holds John Doe before Jane Smith.\<close>

theorem add_contacts_sorted_witness:
  "validate_phone_number (phone_number jane_smith)
   \<and> validate_phone_number (phone_number john_doe)
   \<and> contacts (add_contacts [jane_smith, john_doe] (PhoneBook ''contacts.csv'')) =
       [john_doe, jane_smith]
   \<and> contacts (add_contacts [jane_smith, john_doe\<lparr>phone_number := ''123-456-7890''\<rparr>, john_doe]
                 (PhoneBook ''contacts.csv'')) = [john_doe, jane_smith]"
proof -
  have k: "lower ''Doe'' = ''doe''" "lower ''Smith'' = ''smith''"
    by code_simp+
  have le: "\<not> ''smith'' \<le> ''doe''"
    by code_simp
  have v: "validate_phone_number (phone_number jane_smith)"
    "validate_phone_number (phone_number john_doe)"
    "\<not> validate_phone_number (phone_number (john_doe\<lparr>phone_number := ''123-456-7890''\<rparr>))"
    by (simp_all add: jane_smith_def john_doe_def Contact_def validate_examples)
  have s: "sort_key (\<lambda>c. lower (last_name c)) [jane_smith, john_doe] = [john_doe, jane_smith]"
    by (simp add: jane_smith_def john_doe_def Contact_def k le)
  from add_contacts_sorted [of "[jane_smith, john_doe]" "''contacts.csv''"]
       add_contacts_sorted [of "[jane_smith, john_doe\<lparr>phone_number := ''123-456-7890''\<rparr>, john_doe]"
         "''contacts.csv''"]
       v s
  show ?thesis
    by simp
qed

section \<open>Removing by name\<close>

text \<open>
  Claim C6. \<open>remove_contact_by_name\<close> keeps exactly the records that do not match the
  two names (compared without case, both sides trimmed), in their order, so that every
  matching record is removed and not only the first; removing the same names again
  leaves the store as the first removal left it.
\<close>

theorem remove_contact_by_name_all:
  "contacts (store (remove_contact_by_name fn ln pb)) =
     filter (\<lambda>c. \<not> names_match fn ln c) (contacts pb)
   \<and> filter (names_match fn ln) (contacts (store (remove_contact_by_name fn ln pb))) = []
   \<and> store (remove_contact_by_name fn ln (store (remove_contact_by_name fn ln pb))) =
       store (remove_contact_by_name fn ln pb)"
proof -
  have s: "store (remove_contact_by_name fn ln pb) =
     pb\<lparr>contacts := filter (\<lambda>c. \<not> names_match fn ln c) (contacts pb)\<rparr>" for pb
    by (simp add: remove_contact_by_name_def Let_def names_match_def)
  show ?thesis
    by (simp add: s)
qed

text \<open>The witness of C6: two records of Jane Doe, stored with other case and with
  surrounding blanks, and one of John Doe; the names are given as \<open>"jane "\<close> and
  \<open>"DOE"\<close>.\<close>

theorem remove_contact_by_name_all_witness:
  "contacts (store (remove_contact_by_name ''jane '' ''DOE'' two_janes)) = [john_doe]
   \<and> store (remove_contact_by_name ''jane '' ''DOE''
              (store (remove_contact_by_name ''jane '' ''DOE'' two_janes))) =
       store (remove_contact_by_name ''jane '' ''DOE'' two_janes)"
proof -
  have e: "lower (strip ''jane '') = ''jane''" "lower (strip ''DOE'') = ''doe''"
    "lower (strip ''Jane'') = ''jane''" "lower (strip ''Doe'') = ''doe''"
    "lower (strip '' JANE'') = ''jane''" "lower (strip ''doe '') = ''doe''"
    "lower (strip ''John'') = ''john''"
    by code_simp+
  have "filter (\<lambda>c. \<not> names_match ''jane '' ''DOE'' c) (contacts two_janes) = [john_doe]"
    by (simp add: names_match_def two_janes_def john_doe_def Contact_def e)
  with remove_contact_by_name_all [of "''jane ''" "''DOE''" two_janes] show ?thesis
    by simp
qed

section \<open>Batch delete\<close>

text \<open>
  Claim C2, at the input where the code leaves it: \<open>batch_delete\<close> on a source file
  that exists and has no row raises \<open>StopIteration\<close> to the caller.
\<close>

theorem batch_delete_empty_file:
  "batch_delete ''delete.csv'' [''delete.csv'' \<mapsto> []] example_book = Inl StopIteration"
  by (simp add: batch_delete_def)

section \<open>Search\<close>

text \<open>
  Claim C7 as stated fails. The query \<open>" doe"\<close> is no substring of any field of John
  Doe's record, yet \<open>search_contact\<close> trims it and returns the record; and a query
  with a capital letter is lower-cased before it is looked for in the phone number.
\<close>

theorem search_contact_counterexample:
  "returned (search_contact '' doe'' example_book) \<noteq> claimed_search '' doe'' example_book
   \<and> returned (search_contact ''X'' (example_book\<lparr>contacts := [john_doe\<lparr>phone_number := ''X''\<rparr>]\<rparr>))
       \<noteq> claimed_search ''X'' (example_book\<lparr>contacts := [john_doe\<lparr>phone_number := ''X''\<rparr>]\<rparr>)"
proof -
  have q: "lower (strip '' doe'') = ''doe''" "lower '' doe'' = '' doe''"
    "lower (strip ''X'') = ''x''" "lower ''X'' = ''x''"
    by code_simp+
  have n: "lower ''Doe'' = ''doe''" "lower ''John'' = ''john''"
    "lower ''Smith'' = ''smith''" "lower ''Jane'' = ''jane''"
    by code_simp+
  have yes: "sublist ''doe'' ''doe''" "sublist ''X'' ''X''"
    by code_simp+
  have no: "\<not> sublist '' doe'' ''doe''" "\<not> sublist '' doe'' ''john''"
    "\<not> sublist '' doe'' ''(555) 123-4567''" "\<not> sublist '' doe'' ''smith''"
    "\<not> sublist '' doe'' ''jane''" "\<not> sublist '' doe'' ''(555) 999-8888''"
    "\<not> sublist ''doe'' ''jane''" "\<not> sublist ''doe'' ''smith''"
    "\<not> sublist ''doe'' ''(555) 999-8888''"
    "\<not> sublist ''x'' ''john''" "\<not> sublist ''x'' ''doe''" "\<not> sublist ''x'' ''X''"
    by code_simp+
  have "returned (search_contact '' doe'' example_book) = [john_doe]"
    by (simp add: search_contact_def Let_def example_book_def john_doe_def jane_smith_def
        Contact_def q n yes no)
  moreover have "claimed_search '' doe'' example_book = []"
    by (simp add: claimed_search_def example_book_def john_doe_def jane_smith_def
        Contact_def q n no)
  moreover have
    "returned (search_contact ''X'' (example_book\<lparr>contacts := [john_doe\<lparr>phone_number := ''X''\<rparr>]\<rparr>)) = []"
    by (simp add: search_contact_def Let_def john_doe_def Contact_def q n no)
  moreover have
    "claimed_search ''X'' (example_book\<lparr>contacts := [john_doe\<lparr>phone_number := ''X''\<rparr>]\<rparr>)
       = [john_doe\<lparr>phone_number := ''X''\<rparr>]"
    by (simp add: claimed_search_def john_doe_def Contact_def q n yes)
  ultimately show ?thesis
    by simp
qed

text \<open>
  Claim C7 as amended. \<open>search_contact\<close> trims the query and lower-cases it, and returns,
  in the order of the store, exactly the records for which the query so normalised is a
  substring of the lower-cased first name, of the lower-cased last name, or of the phone
  number as stored; the store is unchanged, and the empty query returns every record.
\<close>

theorem search_contact_normalised:
  "returned (search_contact query pb) =
     filter (\<lambda>c. sublist (lower (strip query)) (lower (first_name c))
               \<or> sublist (lower (strip query)) (lower (last_name c))
               \<or> sublist (lower (strip query)) (phone_number c))
            (contacts pb)
   \<and> store (search_contact query pb) = pb
   \<and> returned (search_contact [] pb) = contacts pb"
  by (simp add: search_contact_def Let_def strip_def lower_def)

section \<open>Filter by date\<close>

lemma strptime_date_error: "strptime_date s = Inl e \<Longrightarrow> e = ValueError"
  by (auto simp add: strptime_date_def split: option.splits prod.splits if_splits)

text \<open>
  Claim C8. When both bounds parse, \<open>filter_by_date\<close> returns exactly the records whose
  date of creation lies between the two dates, both included, and reports them; when a
  bound does not parse it returns the empty list and reports the invalid format. In
  both cases it returns normally and the store is unchanged.
\<close>

theorem filter_by_date_spec:
  "(\<forall>d1 d2. strptime_date s = Inr d1 \<and> strptime_date e = Inr d2 \<longrightarrow>
      filter_by_date s e pb =
        (let result = filter (\<lambda>c. date_le d1 (date_of (created_at c))
                                  \<and> date_le (date_of (created_at c)) d2) (contacts pb)
         in Inr \<lparr>returned = result, store = pb,
                 printed = (if result \<noteq> []
                            then FoundInRange (length result) # map (Line \<circ> str_contact) result
                            else [NoContactsBetween d1 d2])\<rparr>))
   \<and> ((\<forall>d. strptime_date s \<noteq> Inr d) \<or> (\<forall>d. strptime_date e \<noteq> Inr d) \<longrightarrow>
        filter_by_date s e pb =
          Inr \<lparr>returned = [], store = pb, printed = [InvalidDateFormat]\<rparr>)"
proof (intro conjI impI allI)
  fix d1 d2
  assume "strptime_date s = Inr d1 \<and> strptime_date e = Inr d2"
  then show "filter_by_date s e pb =
        (let result = filter (\<lambda>c. date_le d1 (date_of (created_at c))
                                  \<and> date_le (date_of (created_at c)) d2) (contacts pb)
         in Inr \<lparr>returned = result, store = pb,
                 printed = (if result \<noteq> []
                            then FoundInRange (length result) # map (Line \<circ> str_contact) result
                            else [NoContactsBetween d1 d2])\<rparr>)"
    by (simp add: filter_by_date_def)
next
  assume bad: "(\<forall>d. strptime_date s \<noteq> Inr d) \<or> (\<forall>d. strptime_date e \<noteq> Inr d)"
  have caught: "invalid_date_format pb err =
      Inr \<lparr>returned = [], store = pb, printed = [InvalidDateFormat]\<rparr>"
    if "strptime_date x = Inl err" for x err
    using strptime_date_error [OF that] by (simp add: invalid_date_format_def)
  show "filter_by_date s e pb = Inr \<lparr>returned = [], store = pb, printed = [InvalidDateFormat]\<rparr>"
  proof (cases "strptime_date s")
    case (Inl err)
    then show ?thesis by (simp add: filter_by_date_def caught)
  next
    case (Inr sd)
    with bad have "\<forall>d. strptime_date e \<noteq> Inr d" by simp
    then obtain err where "strptime_date e = Inl err"
      by (cases "strptime_date e") auto
    with Inr show ?thesis by (simp add: filter_by_date_def caught)
  qed
qed

text \<open>The witness of C8: January 2024 on the example store, where John Doe was created
  on 15 January and Jane Smith on 3 February; and the malformed bound \<open>2024-13-40\<close>.\<close>

theorem filter_by_date_spec_witness:
  "strptime_date ''2024-01-01'' = Inr \<lparr>year = 2024, month = 1, day = 1\<rparr>
   \<and> strptime_date ''2024-01-31'' = Inr \<lparr>year = 2024, month = 1, day = 31\<rparr>
   \<and> filter_by_date ''2024-01-01'' ''2024-01-31'' example_book =
       Inr \<lparr>returned = [john_doe], store = example_book,
            printed = [FoundInRange 1, Line (str_contact john_doe)]\<rparr>
   \<and> strptime_date ''2024-13-40'' = Inl ValueError
   \<and> filter_by_date ''2024-13-40'' ''2024-01-31'' example_book =
       Inr \<lparr>returned = [], store = example_book, printed = [InvalidDateFormat]\<rparr>"
proof -
  have s: "strptime_date ''2024-01-01'' = Inr \<lparr>year = 2024, month = 1, day = 1\<rparr>"
    by code_simp
  have e: "strptime_date ''2024-01-31'' = Inr \<lparr>year = 2024, month = 1, day = 31\<rparr>"
    by code_simp
  have b: "strptime_date ''2024-13-40'' = Inl ValueError"
    by code_simp
  have good: "filter_by_date ''2024-01-01'' ''2024-01-31'' example_book =
       Inr \<lparr>returned = [john_doe], store = example_book,
            printed = [FoundInRange 1, Line (str_contact john_doe)]\<rparr>"
    using filter_by_date_spec [of "''2024-01-01''" "''2024-01-31''" example_book] s e
    by (simp add: example_book_def john_doe_def jane_smith_def Contact_def jan15_def feb03_def
        date_le_def)
  have bad: "filter_by_date ''2024-13-40'' ''2024-01-31'' example_book =
       Inr \<lparr>returned = [], store = example_book, printed = [InvalidDateFormat]\<rparr>"
    using filter_by_date_spec [of "''2024-13-40''" "''2024-01-31''" example_book] b
    by simp
  from s e b good bad show ?thesis by simp
qed

section \<open>Updating a contact\<close>

text \<open>
  Claim C9. \<open>update_contact\<close> overwrites each of the five fields for which a non-empty
  value is supplied, leaves each field whose argument is absent or empty as it was, and
  sets \<open>updated_at\<close> to the current time in every case; \<open>created_at\<close> is unchanged.
\<close>

theorem update_contact_spec:
  "(\<forall>x. fn = Some x \<and> x \<noteq> [] \<longrightarrow> first_name (update_contact fn ln pn em ad now c) = x)
   \<and> (fn = None \<or> fn = Some [] \<longrightarrow>
        first_name (update_contact fn ln pn em ad now c) = first_name c)
   \<and> (\<forall>x. ln = Some x \<and> x \<noteq> [] \<longrightarrow> last_name (update_contact fn ln pn em ad now c) = x)
   \<and> (ln = None \<or> ln = Some [] \<longrightarrow>
        last_name (update_contact fn ln pn em ad now c) = last_name c)
   \<and> (\<forall>x. pn = Some x \<and> x \<noteq> [] \<longrightarrow> phone_number (update_contact fn ln pn em ad now c) = x)
   \<and> (pn = None \<or> pn = Some [] \<longrightarrow>
        phone_number (update_contact fn ln pn em ad now c) = phone_number c)
   \<and> (\<forall>x. em = Some x \<and> x \<noteq> [] \<longrightarrow> email (update_contact fn ln pn em ad now c) = Some x)
   \<and> (em = None \<or> em = Some [] \<longrightarrow>
        email (update_contact fn ln pn em ad now c) = email c)
   \<and> (\<forall>x. ad = Some x \<and> x \<noteq> [] \<longrightarrow> address (update_contact fn ln pn em ad now c) = Some x)
   \<and> (ad = None \<or> ad = Some [] \<longrightarrow>
        address (update_contact fn ln pn em ad now c) = address c)
   \<and> updated_at (update_contact fn ln pn em ad now c) = now
   \<and> created_at (update_contact fn ln pn em ad now c) = created_at c"
  by (simp add: update_contact_def truthy_def Let_def)

text \<open>The witness of C9: a new first name and a new email are supplied, the last name
  and the address are absent, and the phone number is the empty string.\<close>

theorem update_contact_spec_witness:
  "first_name (update_contact (Some ''Johnny'') None (Some []) (Some ''j@example.com'') None
                 feb03 john_doe) = ''Johnny''
   \<and> last_name (update_contact (Some ''Johnny'') None (Some []) (Some ''j@example.com'') None
                 feb03 john_doe) = ''Doe''
   \<and> phone_number (update_contact (Some ''Johnny'') None (Some []) (Some ''j@example.com'') None
                 feb03 john_doe) = ''(555) 123-4567''
   \<and> email (update_contact (Some ''Johnny'') None (Some []) (Some ''j@example.com'') None
                 feb03 john_doe) = Some ''j@example.com''
   \<and> address (update_contact (Some ''Johnny'') None (Some []) (Some ''j@example.com'') None
                 feb03 john_doe) = None
   \<and> updated_at (update_contact (Some ''Johnny'') None (Some []) (Some ''j@example.com'') None
                 feb03 john_doe) = feb03
   \<and> created_at (update_contact (Some ''Johnny'') None (Some []) (Some ''j@example.com'') None
                 feb03 john_doe) = jan15"
  using update_contact_spec [of "Some ''Johnny''" None "Some []" "Some ''j@example.com''" None
      feb03 john_doe]
  by (simp add: john_doe_def Contact_def)

section \<open>Batch import\<close>

lemma phone_number_row_contact [simp]: "phone_number (row_contact clock n row) = row ! 2"
  by (simp add: row_contact_def Contact_def)








section \<open>Saving and loading\<close>

lemma universal_newlines_plain:
  "carriage_return \<notin> set s \<Longrightarrow> universal_newlines s = s"
  by (induction s rule: universal_newlines.induct) auto

lemma read_text_row_plain:
  "list_all (\<lambda>field. carriage_return \<notin> set field \<and> length field \<le> field_size_limit) row \<Longrightarrow>
   read_text_row row = Inr row"
proof -
  assume p: "list_all (\<lambda>field. carriage_return \<notin> set field
                               \<and> length field \<le> field_size_limit) row"
  then have "map universal_newlines row = row"
    by (simp add: list_all_iff map_idI universal_newlines_plain)
  moreover from p have "\<not> list_ex (\<lambda>field. field_size_limit < length field) row"
    by (auto simp add: list_all_iff list_ex_iff)
  ultimately show ?thesis
    by (simp add: read_text_row_def)
qed

lemma last_name_key_fields_of: "last_name_key (fields_of c) = lower (last_name c)"
  by (simp add: last_name_key_def fields_of_def)

lemma fields_of_add_contact:
  "validate_phone_number (phone_number c) \<Longrightarrow>
   map fields_of (contacts (store (add_contact c pb))) =
   sort_key last_name_key (map fields_of (contacts pb) @ [fields_of c])"
proof -
  assume v: "validate_phone_number (phone_number c)"
  have "map fields_of (sort_key (\<lambda>x. last_name_key (fields_of x)) (contacts pb @ [c])) =
      sort_key last_name_key (map fields_of (contacts pb @ [c]))"
    by (rule map_sort_key)
  with v show ?thesis
    by (simp add: add_contact_def sort_contacts_def last_name_key_fields_of)
qed

lemma load_rows_Cons_csv_row:
  "list_all (\<lambda>field. carriage_return \<notin> set field \<and> length field \<le> field_size_limit)
     (csv_row c) \<Longrightarrow>
   load_rows clock n (csv_row c # rows) pb out =
   (let r = add_contact (Contact (first_name c) (last_name c) (phone_number c)
                           (Some (csv_cell (email c))) (Some (csv_cell (address c)))
                           (clock n) (clock (n + 1))) pb
    in load_rows clock (n + 2) rows (store r) (out @ printed r))"
proof -
  assume "list_all (\<lambda>field. carriage_return \<notin> set field \<and> length field \<le> field_size_limit)
     (csv_row c)"
  then have "read_text_row (csv_row c) = Inr (csv_row c)"
    by (rule read_text_row_plain)
  then show ?thesis
    by (simp add: Let_def) (simp add: csv_row_def)
qed

lemma fields_of_Contact:
  "fields_of (Contact (first_name c) (last_name c) (phone_number c)
                (Some (csv_cell (email c))) (Some (csv_cell (address c))) t1 t2) = persisted c"
  by (simp add: fields_of_def persisted_def Contact_def)

lemma phone_number_Contact [simp]: "phone_number (Contact f l p e a t1 t2) = p"
  by (simp add: Contact_def)

lemma load_rows_fields:
  "by_last_name pb \<Longrightarrow>
   list_all (\<lambda>c. list_all (\<lambda>field. carriage_return \<notin> set field
                                   \<and> length field \<le> field_size_limit) (csv_row c)) cs \<Longrightarrow>
   \<exists>pb' out'. load_rows clock n (map csv_row cs) pb out = Inr (pb', out') \<and>
     map fields_of (contacts pb') =
     sort_key last_name_key
       (map fields_of (contacts pb) @
        map persisted (filter (\<lambda>c. validate_phone_number (phone_number c)) cs))"
proof (induction cs arbitrary: n pb out)
  case Nil
  then have "sorted (map last_name_key (map fields_of (contacts pb)))"
    by (simp add: by_last_name_def last_name_key_fields_of comp_def)
  then show ?case
    by (simp add: sort_key_id_if_sorted)
next
  case (Cons c cs)
  let ?ct = "Contact (first_name c) (last_name c) (phone_number c)
               (Some (csv_cell (email c))) (Some (csv_cell (address c)))
               (clock n) (clock (n + 1))"
  from Cons.prems(2) have plain:
    "list_all (\<lambda>field. carriage_return \<notin> set field \<and> length field \<le> field_size_limit)
       (csv_row c)"
    and rest: "list_all (\<lambda>c. list_all (\<lambda>field. carriage_return \<notin> set field
                                   \<and> length field \<le> field_size_limit) (csv_row c)) cs"
    by simp_all
  have step: "load_rows clock n (map csv_row (c # cs)) pb out =
      load_rows clock (n + 2) (map csv_row cs) (store (add_contact ?ct pb))
        (out @ printed (add_contact ?ct pb))"
    using load_rows_Cons_csv_row [OF plain, of clock n "map csv_row cs" pb out]
    by (simp add: Let_def)
  have sorted': "by_last_name (store (add_contact ?ct pb))"
    using Cons.prems(1) by (rule add_contact_by_last_name)
  show ?case
  proof (cases "validate_phone_number (phone_number c)")
    case True
    have "map fields_of (contacts (store (add_contact ?ct pb))) =
        sort_key last_name_key (map fields_of (contacts pb) @ [persisted c])"
      using True fields_of_add_contact [of ?ct pb] by (simp add: fields_of_Contact)
    with True show ?thesis
      using Cons.IH [OF sorted' rest, of "n + 2" "out @ printed (add_contact ?ct pb)"]
      by (simp only: step) (simp add: sort_key_sort_key_append)
  next
    case False
    then have "store (add_contact ?ct pb) = pb"
      by (simp add: add_contact_def)
    with False show ?thesis
      using Cons.IH [OF Cons.prems(1) rest, of "n + 2" "out @ printed (add_contact ?ct pb)"]
      by (simp only: step) simp
  qed
qed

text \<open>
  Where no field of the saved records holds a carriage return or exceeds the limit of
  the reader, saving and then loading into a fresh store returns normally, with exactly
  the saved records whose phone number is valid, in stable order of their lower-cased
  last names, an absent email or address read back as the empty string.
\<close>

lemma save_then_load_plain:
  "plain_fields pb \<Longrightarrow>
   \<exists>r. save_then_load pb fs clock = Inr r \<and>
     map fields_of (contacts (store r)) =
       sort_key last_name_key
         (map persisted (filter (\<lambda>c. validate_phone_number (phone_number c)) (contacts pb)))"
proof -
  assume p: "plain_fields pb"
  have e: "by_last_name (PhoneBook (filename pb))"
    by (simp add: by_last_name_def PhoneBook_def)
  from p have "list_all (\<lambda>c. list_all (\<lambda>field. carriage_return \<notin> set field
                                   \<and> length field \<le> field_size_limit) (csv_row c)) (contacts pb)"
    by (simp add: plain_fields_def)
  from load_rows_fields [OF e this, of clock 0 "[]"]
  obtain pb' out' where
    l: "load_rows clock 0 (map csv_row (contacts pb)) (PhoneBook (filename pb)) [] = Inr (pb', out')"
    and f: "map fields_of (contacts pb') =
      sort_key last_name_key
        (map persisted (filter (\<lambda>c. validate_phone_number (phone_number c)) (contacts pb)))"
    by (auto simp add: PhoneBook_def)
  from l have "save_then_load pb fs clock = Inr \<lparr>returned = (), store = pb', printed = out'\<rparr>"
    by (simp add: save_then_load_def load_from_file_def save_to_file_def PhoneBook_def)
  with f show ?thesis
    by simp
qed

lemma short_field: "n \<le> 100 \<Longrightarrow> n \<le> field_size_limit"
  by (simp add: field_size_limit_def)

lemma ann_marie_book_eq:
  "ann_marie_book =
     \<lparr>contacts = [Contact ann_marie ''Lee'' ''(555) 222-3333'' (Some ''ann@example.com'')
                    (Some ''1 Main St'') (numbered_clock 0) (numbered_clock 1)],
      filename = ''contacts.csv''\<rparr>"
  by (simp add: ann_marie_book_def batch_import_def Let_def add_contact_def validate_examples
      sort_contacts_def PhoneBook_def Contact_def)

text \<open>
  Claim C1, at an input where the code breaks it. A record whose first name holds a
  carriage return between \<open>Ann\<close> and \<open>Marie\<close>, as \<open>batch_import\<close> reads it from a quoted
  field, with a valid phone number, an email and an address: \<open>save_to_file\<close> writes the
  carriage return, and \<open>load_from_file\<close>, which opens the file without \<open>newline=''\<close>,
  loads the first name with a line feed in its place. No loaded record has the first
  name that was saved.
\<close>

theorem save_load_carriage_return:
  "map fields_of (contacts ann_marie_book) =
     [(''Ann'' @ [carriage_return] @ ''Marie'', ''Lee'', ''(555) 222-3333'',
       Some ''ann@example.com'', Some ''1 Main St'')]
   \<and> save_then_load ann_marie_book Map.empty numbered_clock =
       Inr \<lparr>returned = (),
            store = \<lparr>contacts = [Contact (''Ann'' @ [line_feed] @ ''Marie'') ''Lee''
                                    ''(555) 222-3333'' (Some ''ann@example.com'')
                                    (Some ''1 Main St'') (numbered_clock 0) (numbered_clock 1)],
                     filename = ''contacts.csv''\<rparr>,
            printed = []\<rparr>
   \<and> \<not> reproduces ann_marie_book
         \<lparr>contacts = [Contact (''Ann'' @ [line_feed] @ ''Marie'') ''Lee''
                        ''(555) 222-3333'' (Some ''ann@example.com'')
                        (Some ''1 Main St'') (numbered_clock 0) (numbered_clock 1)],
          filename = ''contacts.csv''\<rparr>"
proof -
  have u: "universal_newlines ann_marie = ''Ann'' @ [line_feed] @ ''Marie''"
    "universal_newlines ''Lee'' = ''Lee''"
    "universal_newlines ''(555) 222-3333'' = ''(555) 222-3333''"
    "universal_newlines ''ann@example.com'' = ''ann@example.com''"
    "universal_newlines ''1 Main St'' = ''1 Main St''"
    by (simp_all add: ann_marie_def carriage_return_def line_feed_def)
  have a: "map fields_of (contacts ann_marie_book) =
     [(''Ann'' @ [carriage_return] @ ''Marie'', ''Lee'', ''(555) 222-3333'',
       Some ''ann@example.com'', Some ''1 Main St'')]"
    by (simp add: ann_marie_book_eq fields_of_def Contact_def ann_marie_def)
  have r: "read_text_row [ann_marie, ''Lee'', ''(555) 222-3333'', ''ann@example.com'',
        ''1 Main St''] =
      Inr [''Ann'' @ [line_feed] @ ''Marie'', ''Lee'', ''(555) 222-3333'', ''ann@example.com'',
        ''1 Main St'']"
  proof -
    have "\<not> list_ex (\<lambda>field. field_size_limit < length field)
        [''Ann'' @ [line_feed] @ ''Marie'', ''Lee'', ''(555) 222-3333'', ''ann@example.com'',
          ''1 Main St'']"
      by (simp add: not_less short_field)
    then show ?thesis
      unfolding read_text_row_def Let_def by (simp only: list.map u if_False)
  qed
  have b: "save_then_load ann_marie_book Map.empty numbered_clock =
       Inr \<lparr>returned = (),
            store = \<lparr>contacts = [Contact (''Ann'' @ [line_feed] @ ''Marie'') ''Lee''
                                    ''(555) 222-3333'' (Some ''ann@example.com'')
                                    (Some ''1 Main St'') (numbered_clock 0) (numbered_clock 1)],
                     filename = ''contacts.csv''\<rparr>,
            printed = []\<rparr>"
    by (simp add: save_then_load_def load_from_file_def save_to_file_def ann_marie_book_eq
        csv_row_def csv_cell_def Contact_def r add_contact_def validate_examples
        sort_contacts_def PhoneBook_def)
  have c: "\<not> reproduces ann_marie_book
         \<lparr>contacts = [Contact (''Ann'' @ [line_feed] @ ''Marie'') ''Lee''
                        ''(555) 222-3333'' (Some ''ann@example.com'')
                        (Some ''1 Main St'') (numbered_clock 0) (numbered_clock 1)],
          filename = ''contacts.csv''\<rparr>"
    by (simp add: reproduces_def ann_marie_book_eq fields_of_def Contact_def ann_marie_def
        carriage_return_def line_feed_def)
  from a b c show ?thesis by simp
qed

end
